theory Spec2Isabelle
  imports Main "HOL-Library.Word"
begin

section \<open>Domain types (internal/core/domain/pokemon.go)\<close>

text \<open>
  Go's \<^verbatim>\<open>int\<close> and \<^verbatim>\<open>uint\<close> are 64-bit machine integers on the build target, so the numeric
  fields are \<open>64 word\<close>; the service only copies them. A \<^verbatim>\<open>time.Time\<close> is kept as an opaque
  integer, \<open>0\<close> being the zero value \<^verbatim>\<open>time.Time{}\<close> that a composite literal leaves in an
  unset field. The three structs \<^verbatim>\<open>Pokemon\<close>, \<^verbatim>\<open>CreatePokemonRequest\<close> and
  \<^verbatim>\<open>FlexiblePokemonRequest\<close> share the field names \<^verbatim>\<open>Name\<close>, \<^verbatim>\<open>Type1\<close>, \<^verbatim>\<open>Type2\<close>; the
  fields of the two request structs and of the external response therefore carry a suffix.
\<close>

type_synonym Time = int

record Pokemon =
  ID :: "64 word"
  Name :: string
  Type1 :: string
  Type2 :: string
  Height :: "64 word"
  Weight :: "64 word"
  BaseExp :: "64 word"
  CreatedAt :: Time
  UpdatedAt :: Time

record CreatePokemonRequest =
  Name_req :: string
  Type1_req :: string
  Type2_req :: string

text \<open>
  A value of type \<^verbatim>\<open>interface{}\<close> as \<^verbatim>\<open>encoding/json\<close> produces it: \<^verbatim>\<open>nil\<close>, \<^verbatim>\<open>bool\<close>,
  \<^verbatim>\<open>float64\<close> (its 64 bits), \<^verbatim>\<open>string\<close>, \<^verbatim>\<open>[]interface{}\<close> or \<^verbatim>\<open>map[string]interface{}\<close>.
\<close>

datatype interface =
    JNull
  | JBool bool
  | JNumber "64 word"
  | JString string
  | JArray "interface list"
  | JObject "(string \<times> interface) list"

text \<open>
  The field \<^verbatim>\<open>Pokemon map[string]interface{}\<close> may be the nil map (\<open>None\<close>) or a map.
\<close>

record FlexiblePokemonRequest =
  Name_flex :: string
  Type1_flex :: string
  Type2_flex :: string
  Pokemon_flex :: "(string \<rightharpoonup> interface) option"

record TypeName =
  Name_type :: string

record TypeSlot =
  Type_slot :: TypeName

record ExternalPokemonResponse =
  ID_ext :: "64 word"
  Name_ext :: string
  Height_ext :: "64 word"
  Weight_ext :: "64 word"
  BaseExperience :: "64 word"
  Types :: "TypeSlot list"

section \<open>Errors\<close>

text \<open>
  A Go \<^verbatim>\<open>error\<close> is either a plain message (\<^verbatim>\<open>errors.New\<close>, \<^verbatim>\<open>*errors.errorString\<close>) or
  the value \<^verbatim>\<open>fmt.Errorf\<close> builds for a format with one \<^verbatim>\<open>%w\<close> verb (\<^verbatim>\<open>*fmt.wrapError\<close>):
  the formatted message together with the wrapped error. The errors of the collaborators
  are values of the same type. A nil \<^verbatim>\<open>error\<close> is \<open>None\<close> of \<open>error option\<close>.
\<close>

datatype error =
    errorString string
  | wrapError string error

fun Error :: "error \<Rightarrow> string" where
  "Error (errorString s) = s"
| "Error (wrapError msg err) = msg"

fun Unwrap :: "error \<Rightarrow> error option" where
  "Unwrap (errorString s) = None"
| "Unwrap (wrapError msg err) = Some err"

definition errors_New :: "string \<Rightarrow> error" where
  "errors_New text = errorString text"

text \<open>
  \<^verbatim>\<open>fmt.Errorf(prefix + "%w", err)\<close> for a non-nil \<^verbatim>\<open>err\<close>: the verb prints \<^verbatim>\<open>err.Error()\<close>.
\<close>

definition fmt_Errorf_w :: "string \<Rightarrow> error \<Rightarrow> error" where
  "fmt_Errorf_w prefix err = wrapError (prefix @ Error err) err"

section \<open>Strings\<close>

text \<open>
  \<^verbatim>\<open>strings.TrimSpace\<close> and \<^verbatim>\<open>strings.ToLower\<close> on the bytes of a string, as the standard
  library computes them for ASCII text: the white space is tab, line feed, vertical tab,
  form feed, carriage return and space, and \<^verbatim>\<open>'A'..'Z'\<close> move up by \<^verbatim>\<open>'a' - 'A'\<close>.
  Bytes from \<open>0x80\<close> on (multi-byte UTF-8 sequences) are left as they are.
\<close>

definition isSpace :: "char \<Rightarrow> bool" where
  "isSpace c \<longleftrightarrow>
     (of_char c :: nat) = 32 \<or> (9 \<le> (of_char c :: nat) \<and> (of_char c :: nat) \<le> 13)"

definition TrimSpace :: "string \<Rightarrow> string" where
  "TrimSpace s = rev (dropWhile isSpace (rev (dropWhile isSpace s)))"

definition toLower_byte :: "char \<Rightarrow> char" where
  "toLower_byte c =
     (if 65 \<le> (of_char c :: nat) \<and> (of_char c :: nat) \<le> 90
      then char_of ((of_char c :: nat) + 32) else c)"

definition ToLower :: "string \<Rightarrow> string" where
  "ToLower s = map toLower_byte s"

section \<open>Ports (internal/core/ports/pokemon.go)\<close>

text \<open>
  The two collaborators are interfaces. A method is a function on the state \<open>'w\<close> the
  collaborators live in (the database, the remote service) that returns its Go results
  and the next state. \<^verbatim>\<open>Create\<close> receives a pointer and may write to the record behind it
  (the store assigns the identity and the timestamps), so it returns the record as it
  leaves it, next to its \<^verbatim>\<open>error\<close>.
\<close>

record 'w PokemonRepository =
  Create :: "Pokemon \<Rightarrow> 'w \<Rightarrow> (Pokemon \<times> error option) \<times> 'w"
  GetByID :: "64 word \<Rightarrow> 'w \<Rightarrow> (Pokemon option \<times> error option) \<times> 'w"
  GetByName :: "string \<Rightarrow> 'w \<Rightarrow> (Pokemon option \<times> error option) \<times> 'w"
  List :: "'w \<Rightarrow> (Pokemon list option \<times> error option) \<times> 'w"

record 'w PokemonAPIClient =
  GetPokemonData :: "string \<Rightarrow> 'w \<Rightarrow> (ExternalPokemonResponse option \<times> error option) \<times> 'w"

section \<open>The service (internal/core/services)\<close>

record 'w pokemonService =
  repository :: "'w PokemonRepository"
  apiClient :: "'w PokemonAPIClient"

definition NewPokemonService ::
  "'w PokemonRepository \<Rightarrow> 'w PokemonAPIClient \<Rightarrow> 'w pokemonService" where
  "NewPokemonService repo client = \<lparr>repository = repo, apiClient = client\<rparr>"

text \<open>
  Every call the service makes on a collaborator is recorded, in order, next to the
  collaborators' state, so that "makes no call" is a statement about the record.
\<close>

datatype call =
    Create_call Pokemon
  | GetByID_call "64 word"
  | GetByName_call string
  | List_call
  | GetPokemonData_call string

record 'w state =
  world :: 'w
  calls :: "call list"

definition repository_GetByName ::
  "'w pokemonService \<Rightarrow> string \<Rightarrow> 'w state \<Rightarrow> (Pokemon option \<times> error option) \<times> 'w state" where
  "repository_GetByName s name \<sigma> =
     (case GetByName (repository s) name (world \<sigma>) of
        (r, w) \<Rightarrow> (r, \<lparr>world = w, calls = calls \<sigma> @ [GetByName_call name]\<rparr>))"

definition repository_GetByID ::
  "'w pokemonService \<Rightarrow> 64 word \<Rightarrow> 'w state \<Rightarrow> (Pokemon option \<times> error option) \<times> 'w state" where
  "repository_GetByID s id' \<sigma> =
     (case GetByID (repository s) id' (world \<sigma>) of
        (r, w) \<Rightarrow> (r, \<lparr>world = w, calls = calls \<sigma> @ [GetByID_call id']\<rparr>))"

definition repository_List ::
  "'w pokemonService \<Rightarrow> 'w state \<Rightarrow> (Pokemon list option \<times> error option) \<times> 'w state" where
  "repository_List s \<sigma> =
     (case List (repository s) (world \<sigma>) of
        (r, w) \<Rightarrow> (r, \<lparr>world = w, calls = calls \<sigma> @ [List_call]\<rparr>))"

definition repository_Create ::
  "'w pokemonService \<Rightarrow> Pokemon \<Rightarrow> 'w state \<Rightarrow> (Pokemon \<times> error option) \<times> 'w state" where
  "repository_Create s pokemon \<sigma> =
     (case Create (repository s) pokemon (world \<sigma>) of
        (r, w) \<Rightarrow> (r, \<lparr>world = w, calls = calls \<sigma> @ [Create_call pokemon]\<rparr>))"

definition apiClient_GetPokemonData ::
  "'w pokemonService \<Rightarrow> string \<Rightarrow> 'w state \<Rightarrow>
     (ExternalPokemonResponse option \<times> error option) \<times> 'w state" where
  "apiClient_GetPokemonData s identifier \<sigma> =
     (case GetPokemonData (apiClient s) identifier (world \<sigma>) of
        (r, w) \<Rightarrow> (r, \<lparr>world = w, calls = calls \<sigma> @ [GetPokemonData_call identifier]\<rparr>))"

text \<open>
  A method either returns its results or panics: \<^verbatim>\<open>CreatePokemon\<close> reads
  \<^verbatim>\<open>externalData.Name\<close> after checking only \<^verbatim>\<open>err\<close>, which is a nil dereference when
  the client answers \<^verbatim>\<open>(nil, nil)\<close>.
\<close>

datatype 'a outcome = Returns 'a | Panics

text \<open>
  \<^verbatim>\<open>CreatePokemon\<close>, lines 23 to 48. The request pointer is never nil at a call site and is
  a value here. The composite literal leaves \<^verbatim>\<open>ID\<close>, \<^verbatim>\<open>CreatedAt\<close> and \<^verbatim>\<open>UpdatedAt\<close> at their
  zero values.
\<close>

definition CreatePokemon ::
  "'w pokemonService \<Rightarrow> CreatePokemonRequest \<Rightarrow> 'w state \<Rightarrow>
     (Pokemon option \<times> error option) outcome \<times> 'w state" where
  "CreatePokemon s req \<sigma> =
     (case repository_GetByName s (Name_req req) \<sigma> of
        ((existingPokemon, err), \<sigma>1) \<Rightarrow>
          if err = None \<and> existingPokemon \<noteq> None
          then (Returns (None, Some (errors_New ''pokemon with this name already exists'')), \<sigma>1)
          else
            (case apiClient_GetPokemonData s (Name_req req) \<sigma>1 of
               ((externalData, err), \<sigma>2) \<Rightarrow>
                 (case err of
                    Some e \<Rightarrow>
                      (Returns (None, Some (fmt_Errorf_w ''failed to fetch Pokemon data: '' e)), \<sigma>2)
                  | None \<Rightarrow>
                      (case externalData of
                         None \<Rightarrow> (Panics, \<sigma>2)
                       | Some ext \<Rightarrow>
                           (case repository_Create s
                                   \<lparr>ID = 0, Name = Name_ext ext,
                                    Type1 = Type1_req req, Type2 = Type2_req req,
                                    Height = Height_ext ext, Weight = Weight_ext ext,
                                    BaseExp = BaseExperience ext,
                                    CreatedAt = 0, UpdatedAt = 0\<rparr> \<sigma>2 of
                              ((pokemon, err), \<sigma>3) \<Rightarrow>
                                (case err of
                                   Some e \<Rightarrow>
                                     (Returns (None, Some (fmt_Errorf_w ''failed to save Pokemon: '' e)), \<sigma>3)
                                 | None \<Rightarrow> (Returns (Some pokemon, None), \<sigma>3)))))))"

text \<open>\<^verbatim>\<open>extractPokemonName\<close>, lines 73 to 91.\<close>

definition extractPokemonName :: "FlexiblePokemonRequest \<Rightarrow> string" where
  "extractPokemonName input =
     (if Name_flex input \<noteq> [] then ToLower (TrimSpace (Name_flex input))
      else
        (case Pokemon_flex input of
           None \<Rightarrow> []
         | Some m \<Rightarrow>
             (case (case m ''name'' of
                      Some nameValue \<Rightarrow>
                        (case nameValue of JString nameStr \<Rightarrow> Some nameStr | _ \<Rightarrow> None)
                    | None \<Rightarrow> None) of
                Some nameStr \<Rightarrow> ToLower (TrimSpace nameStr)
              | None \<Rightarrow>
                  (case m ''pokemon'' of
                     Some (JString nameStr) \<Rightarrow> ToLower (TrimSpace nameStr)
                   | _ \<Rightarrow> []))))"

text \<open>\<^verbatim>\<open>CreatePokemonFlexible\<close>, lines 50 to 63.\<close>

definition CreatePokemonFlexible ::
  "'w pokemonService \<Rightarrow> FlexiblePokemonRequest \<Rightarrow> 'w state \<Rightarrow>
     (Pokemon option \<times> error option) outcome \<times> 'w state" where
  "CreatePokemonFlexible s req \<sigma> =
     (let pokemonName = extractPokemonName req in
      if pokemonName = []
      then (Returns (None, Some (errors_New ''pokemon name is required'')), \<sigma>)
      else CreatePokemon s
             \<lparr>Name_req = pokemonName, Type1_req = Type1_flex req, Type2_req = Type2_flex req\<rparr> \<sigma>)"

text \<open>\<^verbatim>\<open>GetPokemon\<close> and \<^verbatim>\<open>ListPokemon\<close>, lines 65 to 71, hand the store's answer on.\<close>

definition GetPokemon ::
  "'w pokemonService \<Rightarrow> 64 word \<Rightarrow> 'w state \<Rightarrow> (Pokemon option \<times> error option) \<times> 'w state" where
  "GetPokemon s id' \<sigma> = repository_GetByID s id' \<sigma>"

definition ListPokemon ::
  "'w pokemonService \<Rightarrow> 'w state \<Rightarrow> (Pokemon list option \<times> error option) \<times> 'w state" where
  "ListPokemon s \<sigma> = repository_List s \<sigma>"

section \<open>An in-memory store and catalogue\<close>

text \<open>
  Concrete collaborators on which the theorems below are exercised. The store is the list
  of saved records: \<^verbatim>\<open>GetByName\<close> and \<^verbatim>\<open>GetByID\<close> answer as
  \<^verbatim>\<open>repositories.PokemonRepository\<close> does (the record, or \<^verbatim>\<open>"pokemon not found"\<close>), and
  \<^verbatim>\<open>Create\<close> refuses a name that is already saved, as the unique column does, and otherwise
  assigns the next identity. The catalogue knows two entries and, as
  \<^verbatim>\<open>pokeAPIClient.GetPokemonData\<close> does on its line 28, trims and lowercases the identifier
  before it looks it up.
\<close>

definition memRepository :: "Pokemon list PokemonRepository" where
  "memRepository =
     \<lparr>Create = (\<lambda>p w.
          if \<exists>q \<in> set w. Name q = Name p
          then ((p, Some (errorString ''duplicate key value violates unique constraint'')), w)
          else ((p\<lparr>ID := of_nat (length w) + 1\<rparr>, None), w @ [p\<lparr>ID := of_nat (length w) + 1\<rparr>])),
      GetByID = (\<lambda>i w.
          case find (\<lambda>q. ID q = i) w of
            Some q \<Rightarrow> ((Some q, None), w)
          | None \<Rightarrow> ((None, Some (errorString ''pokemon not found'')), w)),
      GetByName = (\<lambda>n w.
          case find (\<lambda>q. Name q = n) w of
            Some q \<Rightarrow> ((Some q, None), w)
          | None \<Rightarrow> ((None, Some (errorString ''pokemon not found'')), w)),
      List = (\<lambda>w. ((Some w, None), w))\<rparr>"

definition pikachu_entry :: ExternalPokemonResponse where
  "pikachu_entry =
     \<lparr>ID_ext = 25, Name_ext = ''pikachu'', Height_ext = 4, Weight_ext = 60,
      BaseExperience = 112, Types = [\<lparr>Type_slot = \<lparr>Name_type = ''electric''\<rparr>\<rparr>]\<rparr>"

definition charizard_entry :: ExternalPokemonResponse where
  "charizard_entry =
     \<lparr>ID_ext = 6, Name_ext = ''charizard'', Height_ext = 17, Weight_ext = 905,
      BaseExperience = 267,
      Types = [\<lparr>Type_slot = \<lparr>Name_type = ''fire''\<rparr>\<rparr>, \<lparr>Type_slot = \<lparr>Name_type = ''flying''\<rparr>\<rparr>]\<rparr>"

definition memClient :: "Pokemon list PokemonAPIClient" where
  "memClient =
     \<lparr>GetPokemonData = (\<lambda>identifier w.
          let identifier = ToLower (TrimSpace identifier) in
          if identifier = ''pikachu'' then ((Some pikachu_entry, None), w)
          else if identifier = ''charizard'' then ((Some charizard_entry, None), w)
          else ((None, Some (errorString (''pokemon '' @ [CHR 0x27] @ identifier @ [CHR 0x27] @ '' not found''))), w))\<rparr>"

definition memService :: "Pokemon list pokemonService" where
  "memService = NewPokemonService memRepository memClient"

definition saved_pikachu :: Pokemon where
  "saved_pikachu =
     \<lparr>ID = 1, Name = ''pikachu'', Type1 = ''electric'', Type2 = [],
      Height = 4, Weight = 60, BaseExp = 112, CreatedAt = 0, UpdatedAt = 0\<rparr>"

definition empty_store :: "Pokemon list state" where
  "empty_store = \<lparr>world = [], calls = []\<rparr>"

definition pikachu_store :: "Pokemon list state" where
  "pikachu_store = \<lparr>world = [saved_pikachu], calls = []\<rparr>"

text \<open>
  A store whose \<^verbatim>\<open>GetByName\<close> answers \<^verbatim>\<open>(nil, nil)\<close>, which the interface allows, and is
  otherwise the in-memory one.
\<close>

definition nilRepository :: "Pokemon list PokemonRepository" where
  "nilRepository = memRepository\<lparr>GetByName := (\<lambda>n w. ((None, None), w))\<rparr>"

definition nilService :: "Pokemon list pokemonService" where
  "nilService = NewPokemonService nilRepository memClient"

section \<open>Name resolution as the specification words it\<close>

text \<open>
  The string a flexible request holds under a key of its nested object: none when the
  object is nil, when the key is missing or when the value there is not a string.
\<close>

definition nestedString :: "FlexiblePokemonRequest \<Rightarrow> string \<Rightarrow> string option" where
  "nestedString input key =
     (case Pokemon_flex input of
        None \<Rightarrow> None
      | Some m \<Rightarrow> (case m key of Some (JString str) \<Rightarrow> Some str | _ \<Rightarrow> None))"

text \<open>
  The resolution order in the words of the specification, for comparison with
  \<^verbatim>\<open>extractPokemonName\<close>: the top-level name, then the nested \<^verbatim>\<open>name\<close> when present and a
  string, then the nested \<^verbatim>\<open>pokemon\<close> when a string, each source consulted whenever the
  one before it is absent or empty after trimming and lowercasing; the empty string when
  no source resolves to a non-empty string.
\<close>

definition spec_extractPokemonName :: "FlexiblePokemonRequest \<Rightarrow> string" where
  "spec_extractPokemonName input =
     (let top = ToLower (TrimSpace (Name_flex input));
          nested_name = (case nestedString input ''name'' of
                           Some str \<Rightarrow> ToLower (TrimSpace str) | None \<Rightarrow> []);
          nested_pokemon = (case nestedString input ''pokemon'' of
                              Some str \<Rightarrow> ToLower (TrimSpace str) | None \<Rightarrow> [])
      in if top \<noteq> [] then top
         else if nested_name \<noteq> [] then nested_name
         else nested_pokemon)"

section \<open>Evaluation of the helpers\<close>

lemma normalize_PIKACHU: "ToLower (TrimSpace ''  PIKACHU  '') = ''pikachu''"
  by code_simp

lemma normalize_pikachu: "ToLower (TrimSpace ''pikachu'') = ''pikachu''"
  by code_simp

lemma normalize_charizard: "ToLower (TrimSpace ''charizard'') = ''charizard''"
  by code_simp

lemma normalize_missingno: "ToLower (TrimSpace ''missingno'') = ''missingno''"
  by code_simp

lemma normalize_blank: "ToLower (TrimSpace ''   '') = []"
  by code_simp

lemma normalize_empty: "ToLower (TrimSpace []) = []"
  by (simp add: ToLower_def TrimSpace_def)

lemmas mem_defs =
  memService_def nilService_def nilRepository_def
  NewPokemonService_def memRepository_def memClient_def
  empty_store_def pikachu_store_def saved_pikachu_def pikachu_entry_def charizard_entry_def

lemmas call_defs =
  repository_GetByName_def repository_Create_def apiClient_GetPokemonData_def

section \<open>Duplicate names\<close>

text \<open>
  C1. When the store's \<^verbatim>\<open>GetByName\<close> answers the request's name with a record and no
  error, \<^verbatim>\<open>CreatePokemon\<close> returns no record and the error "pokemon with this name already
  exists", and the lookup is the only call it makes: the record of calls grows by exactly
  that \<^verbatim>\<open>GetByName\<close>, so neither \<^verbatim>\<open>GetPokemonData\<close> nor \<^verbatim>\<open>Create\<close> is called, and the
  collaborators are left in the state the lookup left them in.
\<close>

theorem CreatePokemon_duplicate_name:
  assumes "GetByName (repository s) (Name_req req) (world \<sigma>) = ((Some existing, None), w1)"
  shows "CreatePokemon s req \<sigma> =
           (Returns (None, Some (errors_New ''pokemon with this name already exists'')),
            \<lparr>world = w1, calls = calls \<sigma> @ [GetByName_call (Name_req req)]\<rparr>)"
  using assms by (simp add: CreatePokemon_def repository_GetByName_def)

theorem CreatePokemon_duplicate_name_witness:
  "GetByName (repository memService) ''pikachu'' (world pikachu_store)
     = ((Some saved_pikachu, None), [saved_pikachu])
   \<and> CreatePokemon memService
        \<lparr>Name_req = ''pikachu'', Type1_req = ''electric'', Type2_req = []\<rparr> pikachu_store
     = (Returns (None, Some (errorString ''pokemon with this name already exists'')),
        \<lparr>world = [saved_pikachu], calls = [GetByName_call ''pikachu'']\<rparr>)"
proof -
  have h: "GetByName (repository memService) ''pikachu'' (world pikachu_store)
             = ((Some saved_pikachu, None), [saved_pikachu])"
    by (simp add: mem_defs)
  show ?thesis
    using h CreatePokemon_duplicate_name
      [of memService "\<lparr>Name_req = ''pikachu'', Type1_req = ''electric'', Type2_req = []\<rparr>"
          pikachu_store saved_pikachu "[saved_pikachu]"]
    by (simp add: errors_New_def pikachu_store_def)
qed

section \<open>The record that is built\<close>

text \<open>
  C2. When the duplicate check passes and the catalogue answers with an entry and no
  error, the record \<^verbatim>\<open>CreatePokemon\<close> builds and hands to \<^verbatim>\<open>Create\<close> has the entry's name
  (as it is, with no trimming or lowercasing), height, weight and base experience and the
  request's \<^verbatim>\<open>Type1\<close> and \<^verbatim>\<open>Type2\<close>; whatever type tags \<open>ts\<close> the entry carries, the record
  is the same. When the store then saves it without an error, changing at most the
  identity and the timestamps, the record returned has these six values.
\<close>

theorem CreatePokemon_record_from_catalog:
  assumes lookup: "GetByName (repository s) (Name_req req) (world \<sigma>) = ((existing, err), w1)"
    and no_duplicate: "\<not> (err = None \<and> existing \<noteq> None)"
    and fetch: "GetPokemonData (apiClient s) (Name_req req) w1
                  = ((Some (ext\<lparr>Types := ts\<rparr>), None), w2)"
    and save: "Create (repository s)
                 \<lparr>ID = 0, Name = Name_ext ext, Type1 = Type1_req req, Type2 = Type2_req req,
                  Height = Height_ext ext, Weight = Weight_ext ext,
                  BaseExp = BaseExperience ext, CreatedAt = 0, UpdatedAt = 0\<rparr> w2
                  = ((saved, None), w3)"
    and kept: "saved\<lparr>ID := 0, CreatedAt := 0, UpdatedAt := 0\<rparr>
                 = \<lparr>ID = 0, Name = Name_ext ext, Type1 = Type1_req req, Type2 = Type2_req req,
                    Height = Height_ext ext, Weight = Weight_ext ext,
                    BaseExp = BaseExperience ext, CreatedAt = 0, UpdatedAt = 0\<rparr>"
  shows "CreatePokemon s req \<sigma> =
           (Returns (Some saved, None),
            \<lparr>world = w3,
             calls = calls \<sigma> @
               [GetByName_call (Name_req req), GetPokemonData_call (Name_req req),
                Create_call
                  \<lparr>ID = 0, Name = Name_ext ext, Type1 = Type1_req req, Type2 = Type2_req req,
                   Height = Height_ext ext, Weight = Weight_ext ext,
                   BaseExp = BaseExperience ext, CreatedAt = 0, UpdatedAt = 0\<rparr>]\<rparr>)
         \<and> Name saved = Name_ext ext \<and> Height saved = Height_ext ext
         \<and> Weight saved = Weight_ext ext \<and> BaseExp saved = BaseExperience ext
         \<and> Type1 saved = Type1_req req \<and> Type2 saved = Type2_req req"
proof -
  have run: "CreatePokemon s req \<sigma> =
           (Returns (Some saved, None),
            \<lparr>world = w3,
             calls = calls \<sigma> @
               [GetByName_call (Name_req req), GetPokemonData_call (Name_req req),
                Create_call
                  \<lparr>ID = 0, Name = Name_ext ext, Type1 = Type1_req req, Type2 = Type2_req req,
                   Height = Height_ext ext, Weight = Weight_ext ext,
                   BaseExp = BaseExperience ext, CreatedAt = 0, UpdatedAt = 0\<rparr>]\<rparr>)"
    using lookup no_duplicate fetch save
    by (auto simp add: CreatePokemon_def call_defs)
  have fields: "Name saved = Name (saved\<lparr>ID := 0, CreatedAt := 0, UpdatedAt := 0\<rparr>)"
    "Height saved = Height (saved\<lparr>ID := 0, CreatedAt := 0, UpdatedAt := 0\<rparr>)"
    "Weight saved = Weight (saved\<lparr>ID := 0, CreatedAt := 0, UpdatedAt := 0\<rparr>)"
    "BaseExp saved = BaseExp (saved\<lparr>ID := 0, CreatedAt := 0, UpdatedAt := 0\<rparr>)"
    "Type1 saved = Type1 (saved\<lparr>ID := 0, CreatedAt := 0, UpdatedAt := 0\<rparr>)"
    "Type2 saved = Type2 (saved\<lparr>ID := 0, CreatedAt := 0, UpdatedAt := 0\<rparr>)"
    by simp_all
  show ?thesis
    using run fields unfolding kept by simp
qed

theorem CreatePokemon_record_from_catalog_witness:
  "CreatePokemon memService
     \<lparr>Name_req = ''pikachu'', Type1_req = ''electric'', Type2_req = []\<rparr> empty_store
   = (Returns (Some saved_pikachu, None),
      \<lparr>world = [saved_pikachu],
       calls = [GetByName_call ''pikachu'', GetPokemonData_call ''pikachu'',
                Create_call (saved_pikachu\<lparr>ID := 0\<rparr>)]\<rparr>)
   \<and> Name saved_pikachu = ''pikachu'' \<and> Height saved_pikachu = 4
   \<and> Weight saved_pikachu = 60 \<and> BaseExp saved_pikachu = 112
   \<and> Type1 saved_pikachu = ''electric'' \<and> Type2 saved_pikachu = []"
proof -
  let ?req = "\<lparr>Name_req = ''pikachu'', Type1_req = ''electric'', Type2_req = []\<rparr>"
  let ?ext = "pikachu_entry\<lparr>Types := []\<rparr>"
  let ?built = "\<lparr>ID = 0, Name = Name_ext ?ext, Type1 = Type1_req ?req, Type2 = Type2_req ?req,
                  Height = Height_ext ?ext, Weight = Weight_ext ?ext,
                  BaseExp = BaseExperience ?ext, CreatedAt = 0, UpdatedAt = 0\<rparr>"
  have lookup: "GetByName (repository memService) (Name_req ?req) (world empty_store)
                  = ((None, Some (errorString ''pokemon not found'')), [])"
    by (simp add: mem_defs)
  have no_duplicate:
    "\<not> (Some (errorString ''pokemon not found'') = None \<and> (None :: Pokemon option) \<noteq> None)"
    by simp
  have fetch: "GetPokemonData (apiClient memService) (Name_req ?req) []
                 = ((Some (?ext\<lparr>Types := Types pikachu_entry\<rparr>), None), [])"
    by (simp add: mem_defs normalize_pikachu)
  have save: "Create (repository memService) ?built [] = ((saved_pikachu, None), [saved_pikachu])"
    by (simp add: mem_defs)
  have kept: "saved_pikachu\<lparr>ID := 0, CreatedAt := 0, UpdatedAt := 0\<rparr> = ?built"
    by (simp add: mem_defs)
  show ?thesis
    using CreatePokemon_record_from_catalog [OF lookup no_duplicate fetch save kept]
    by (simp add: mem_defs)
qed

section \<open>Lookup errors\<close>

lemma CreatePokemon_proceeds_to_fetch:
  assumes "GetByName (repository s) (Name_req req) (world \<sigma>) = ((existing, err), w1)"
    and "\<not> (err = None \<and> existing \<noteq> None)"
  shows "\<exists>rest. calls (snd (CreatePokemon s req \<sigma>)) =
           calls \<sigma> @ [GetByName_call (Name_req req), GetPokemonData_call (Name_req req)] @ rest"
    and "fst (CreatePokemon s req \<sigma>)
           \<noteq> Returns (None, Some (errors_New ''pokemon with this name already exists''))"
  using assms
  by (auto simp add: CreatePokemon_def call_defs errors_New_def fmt_Errorf_w_def
      split: prod.splits option.splits)



section \<open>Failures of the catalogue and of the store\<close>

text \<open>
  C7. When the duplicate check passes and \<^verbatim>\<open>GetPokemonData\<close> answers with an error \<open>e\<close>
  (with or without an entry), \<^verbatim>\<open>CreatePokemon\<close> returns no record and an error whose
  message is "failed to fetch Pokemon data: " followed by the message of \<open>e\<close> and which
  wraps \<open>e\<close>; the calls it has made are the lookup and the fetch, so \<^verbatim>\<open>Create\<close> is not
  called and the collaborators stay in the state the fetch left them in.
\<close>

theorem CreatePokemon_fetch_failed:
  assumes lookup: "GetByName (repository s) (Name_req req) (world \<sigma>) = ((existing, err), w1)"
    and no_duplicate: "\<not> (err = None \<and> existing \<noteq> None)"
    and fetch: "GetPokemonData (apiClient s) (Name_req req) w1 = ((externalData, Some e), w2)"
  shows "CreatePokemon s req \<sigma> =
           (Returns (None, Some (fmt_Errorf_w ''failed to fetch Pokemon data: '' e)),
            \<lparr>world = w2,
             calls = calls \<sigma> @
               [GetByName_call (Name_req req), GetPokemonData_call (Name_req req)]\<rparr>)
         \<and> Error (fmt_Errorf_w ''failed to fetch Pokemon data: '' e)
             = ''failed to fetch Pokemon data: '' @ Error e
         \<and> Unwrap (fmt_Errorf_w ''failed to fetch Pokemon data: '' e) = Some e"
  using lookup no_duplicate fetch
  by (auto simp add: CreatePokemon_def call_defs fmt_Errorf_w_def)

theorem CreatePokemon_fetch_failed_witness:
  "CreatePokemon memService
     \<lparr>Name_req = ''missingno'', Type1_req = ''normal'', Type2_req = []\<rparr> empty_store
   = (Returns (None, Some (wrapError
        (''failed to fetch Pokemon data: pokemon '' @ [CHR 0x27] @ ''missingno'' @ [CHR 0x27] @ '' not found'')
        (errorString (''pokemon '' @ [CHR 0x27] @ ''missingno'' @ [CHR 0x27] @ '' not found'')))),
      \<lparr>world = [], calls = [GetByName_call ''missingno'', GetPokemonData_call ''missingno'']\<rparr>)"
proof -
  let ?req = "\<lparr>Name_req = ''missingno'', Type1_req = ''normal'', Type2_req = []\<rparr>"
  let ?e = "errorString (''pokemon '' @ [CHR 0x27] @ ''missingno'' @ [CHR 0x27] @ '' not found'')"
  have lookup: "GetByName (repository memService) (Name_req ?req) (world empty_store)
                  = ((None, Some (errorString ''pokemon not found'')), [])"
    by (simp add: mem_defs)
  have no_duplicate:
    "\<not> (Some (errorString ''pokemon not found'') = None \<and> (None :: Pokemon option) \<noteq> None)"
    by simp
  have fetch: "GetPokemonData (apiClient memService) (Name_req ?req) [] = ((None, Some ?e), [])"
    by (simp add: mem_defs normalize_missingno)
  show ?thesis
    using CreatePokemon_fetch_failed [OF lookup no_duplicate fetch]
    by (simp add: mem_defs fmt_Errorf_w_def)
qed

text \<open>
  C8. When the duplicate check passes, the catalogue answers with an entry and the
  store's \<^verbatim>\<open>Create\<close> answers with an error \<open>e\<close>, \<^verbatim>\<open>CreatePokemon\<close> returns an error whose
  message is "failed to save Pokemon: " followed by the message of \<open>e\<close>, and a nil record:
  the record it built, in whatever state the store left it, is not returned.
\<close>

theorem CreatePokemon_save_failed:
  assumes lookup: "GetByName (repository s) (Name_req req) (world \<sigma>) = ((existing, err), w1)"
    and no_duplicate: "\<not> (err = None \<and> existing \<noteq> None)"
    and fetch: "GetPokemonData (apiClient s) (Name_req req) w1 = ((Some ext, None), w2)"
    and save: "Create (repository s)
                 \<lparr>ID = 0, Name = Name_ext ext, Type1 = Type1_req req, Type2 = Type2_req req,
                  Height = Height_ext ext, Weight = Weight_ext ext,
                  BaseExp = BaseExperience ext, CreatedAt = 0, UpdatedAt = 0\<rparr> w2
                  = ((left, Some e), w3)"
  shows "fst (CreatePokemon s req \<sigma>)
           = Returns (None, Some (fmt_Errorf_w ''failed to save Pokemon: '' e))
         \<and> Error (fmt_Errorf_w ''failed to save Pokemon: '' e)
             = ''failed to save Pokemon: '' @ Error e
         \<and> Unwrap (fmt_Errorf_w ''failed to save Pokemon: '' e) = Some e"
  using lookup no_duplicate fetch save
  by (auto simp add: CreatePokemon_def call_defs fmt_Errorf_w_def)

theorem CreatePokemon_save_failed_witness:
  "fst (CreatePokemon memService
     \<lparr>Name_req = ''  PIKACHU  '', Type1_req = ''electric'', Type2_req = []\<rparr> pikachu_store)
   = Returns (None, Some (wrapError
       ''failed to save Pokemon: duplicate key value violates unique constraint''
       (errorString ''duplicate key value violates unique constraint'')))"
proof -
  let ?req = "\<lparr>Name_req = ''  PIKACHU  '', Type1_req = ''electric'', Type2_req = []\<rparr>"
  let ?e = "errorString ''duplicate key value violates unique constraint''"
  let ?built = "\<lparr>ID = 0, Name = Name_ext pikachu_entry, Type1 = Type1_req ?req,
                  Type2 = Type2_req ?req, Height = Height_ext pikachu_entry,
                  Weight = Weight_ext pikachu_entry, BaseExp = BaseExperience pikachu_entry,
                  CreatedAt = 0, UpdatedAt = 0\<rparr>"
  have lookup: "GetByName (repository memService) (Name_req ?req) (world pikachu_store)
                  = ((None, Some (errorString ''pokemon not found'')), [saved_pikachu])"
    by (simp add: mem_defs)
  have no_duplicate:
    "\<not> (Some (errorString ''pokemon not found'') = None \<and> (None :: Pokemon option) \<noteq> None)"
    by simp
  have fetch: "GetPokemonData (apiClient memService) (Name_req ?req) [saved_pikachu]
                 = ((Some pikachu_entry, None), [saved_pikachu])"
    by (simp add: mem_defs normalize_PIKACHU)
  have save: "Create (repository memService) ?built [saved_pikachu]
                = ((?built, Some ?e), [saved_pikachu])"
    by (simp add: mem_defs)
  show ?thesis
    using CreatePokemon_save_failed [OF lookup no_duplicate fetch save]
    by (simp add: fmt_Errorf_w_def)
qed

section \<open>The flexible entry point\<close>

text \<open>
  C6. When \<^verbatim>\<open>extractPokemonName\<close> yields the empty string, \<^verbatim>\<open>CreatePokemonFlexible\<close>
  returns no record and the error "pokemon name is required", and the state, with its
  record of calls, is the one it started from: whatever the collaborators are, neither
  the store nor the catalogue client is called.
\<close>

theorem CreatePokemonFlexible_missing_name:
  assumes "extractPokemonName req = []"
  shows "CreatePokemonFlexible s req \<sigma> =
           (Returns (None, Some (errors_New ''pokemon name is required'')), \<sigma>)"
  using assms by (simp add: CreatePokemonFlexible_def)

theorem CreatePokemonFlexible_missing_name_witness:
  "extractPokemonName
     \<lparr>Name_flex = [], Type1_flex = ''grass'', Type2_flex = [], Pokemon_flex = None\<rparr> = []
   \<and> CreatePokemonFlexible memService
       \<lparr>Name_flex = [], Type1_flex = ''grass'', Type2_flex = [], Pokemon_flex = None\<rparr>
       pikachu_store
     = (Returns (None, Some (errorString ''pokemon name is required'')), pikachu_store)"
proof -
  have h: "extractPokemonName
     \<lparr>Name_flex = [], Type1_flex = ''grass'', Type2_flex = [], Pokemon_flex = None\<rparr> = []"
    by (simp add: extractPokemonName_def)
  show ?thesis
    using h CreatePokemonFlexible_missing_name [OF h, of memService pikachu_store]
    by (simp add: errors_New_def)
qed

text \<open>
  C9. When \<^verbatim>\<open>extractPokemonName\<close> yields a non-empty name, \<^verbatim>\<open>CreatePokemonFlexible\<close>
  returns what \<^verbatim>\<open>CreatePokemon\<close> returns, result and effects, on the request made of that
  name and the flexible request's \<^verbatim>\<open>Type1\<close> and \<^verbatim>\<open>Type2\<close>.
\<close>

theorem CreatePokemonFlexible_delegates:
  assumes "extractPokemonName req \<noteq> []"
  shows "CreatePokemonFlexible s req \<sigma> =
           CreatePokemon s
             \<lparr>Name_req = extractPokemonName req,
              Type1_req = Type1_flex req, Type2_req = Type2_flex req\<rparr> \<sigma>"
  using assms by (simp add: CreatePokemonFlexible_def)

theorem CreatePokemonFlexible_delegates_witness:
  "extractPokemonName
     \<lparr>Name_flex = [], Type1_flex = ''fire'', Type2_flex = ''flying'',
      Pokemon_flex = Some [''name'' \<mapsto> JString ''charizard'']\<rparr> = ''charizard''
   \<and> CreatePokemonFlexible memService
       \<lparr>Name_flex = [], Type1_flex = ''fire'', Type2_flex = ''flying'',
        Pokemon_flex = Some [''name'' \<mapsto> JString ''charizard'']\<rparr> pikachu_store
     = CreatePokemon memService
         \<lparr>Name_req = ''charizard'', Type1_req = ''fire'', Type2_req = ''flying''\<rparr> pikachu_store"
proof -
  let ?req = "\<lparr>Name_flex = [], Type1_flex = ''fire'', Type2_flex = ''flying'',
      Pokemon_flex = Some [''name'' \<mapsto> JString ''charizard'']\<rparr>"
  have h: "extractPokemonName ?req = ''charizard''"
    by (simp add: extractPokemonName_def normalize_charizard)
  have ne: "extractPokemonName ?req \<noteq> []"
    by (simp add: h)
  show ?thesis
    using h CreatePokemonFlexible_delegates [OF ne, of memService pikachu_store]
    by simp
qed

section \<open>When a name counts as a duplicate\<close>

text \<open>
  C10. \<^verbatim>\<open>CreatePokemon\<close> returns the duplicate-name error exactly when the store's
  \<^verbatim>\<open>GetByName\<close> answers with a nil error and a non-nil record. In every other case, an
  error with or without a record, or a nil error with a nil record, the call that follows
  the lookup is \<^verbatim>\<open>GetPokemonData\<close> with the request's name.
\<close>

theorem CreatePokemon_duplicate_iff:
  assumes "GetByName (repository s) (Name_req req) (world \<sigma>) = ((existing, err), w1)"
  shows "(fst (CreatePokemon s req \<sigma>)
            = Returns (None, Some (errors_New ''pokemon with this name already exists''))
          \<longleftrightarrow> err = None \<and> existing \<noteq> None)
         \<and> (\<not> (err = None \<and> existing \<noteq> None) \<longrightarrow>
             (\<exists>rest. calls (snd (CreatePokemon s req \<sigma>)) =
                calls \<sigma> @ [GetByName_call (Name_req req), GetPokemonData_call (Name_req req)]
                  @ rest))"
proof (cases "err = None \<and> existing \<noteq> None")
  case True
  with assms show ?thesis
    by (simp add: CreatePokemon_def repository_GetByName_def)
next
  case False
  with CreatePokemon_proceeds_to_fetch [OF assms] show ?thesis
    by simp
qed

theorem CreatePokemon_duplicate_iff_witness:
  "GetByName (repository nilService) ''pikachu'' (world pikachu_store)
     = ((None, None), [saved_pikachu])
   \<and> fst (CreatePokemon nilService
        \<lparr>Name_req = ''pikachu'', Type1_req = ''electric'', Type2_req = []\<rparr> pikachu_store)
       \<noteq> Returns (None, Some (errors_New ''pokemon with this name already exists''))
   \<and> (\<exists>rest. calls (snd (CreatePokemon nilService
          \<lparr>Name_req = ''pikachu'', Type1_req = ''electric'', Type2_req = []\<rparr> pikachu_store))
        = [GetByName_call ''pikachu'', GetPokemonData_call ''pikachu''] @ rest)"
proof -
  have h: "GetByName (repository nilService)
             (Name_req \<lparr>Name_req = ''pikachu'', Type1_req = ''electric'', Type2_req = []\<rparr>)
             (world pikachu_store)
           = ((None, None), [saved_pikachu])"
    by (simp add: mem_defs)
  show ?thesis
    using h CreatePokemon_duplicate_iff [OF h]
    by (simp add: pikachu_store_def)
qed

section \<open>Name resolution\<close>

lemma extractPokemonName_nestedString:
  "extractPokemonName input =
     (if Name_flex input \<noteq> [] then ToLower (TrimSpace (Name_flex input))
      else case nestedString input ''name'' of
             Some str \<Rightarrow> ToLower (TrimSpace str)
           | None \<Rightarrow>
               (case nestedString input ''pokemon'' of
                  Some str \<Rightarrow> ToLower (TrimSpace str)
                | None \<Rightarrow> []))"
  by (simp add: extractPokemonName_def nestedString_def
      split: option.splits interface.splits)

text \<open>
  C3, as stated, fails. A top-level name of three spaces does not yield to the nested
  \<^verbatim>\<open>name\<close>: \<^verbatim>\<open>extractPokemonName\<close> tests the top-level name before trimming it and returns
  the empty string, where the stated precedence resolves to "pikachu". In the same way a
  nested \<^verbatim>\<open>name\<close> that is a blank string does not yield to the nested \<^verbatim>\<open>pokemon\<close>.
\<close>

theorem extractPokemonName_blank_source_counterexample:
  "extractPokemonName
     \<lparr>Name_flex = ''   '', Type1_flex = ''electric'', Type2_flex = [],
      Pokemon_flex = Some [''name'' \<mapsto> JString ''pikachu'']\<rparr> = []
   \<and> spec_extractPokemonName
     \<lparr>Name_flex = ''   '', Type1_flex = ''electric'', Type2_flex = [],
      Pokemon_flex = Some [''name'' \<mapsto> JString ''pikachu'']\<rparr> = ''pikachu''
   \<and> extractPokemonName
     \<lparr>Name_flex = [], Type1_flex = ''electric'', Type2_flex = [],
      Pokemon_flex = Some [''name'' \<mapsto> JString ''   '', ''pokemon'' \<mapsto> JString ''pikachu'']\<rparr> = []
   \<and> spec_extractPokemonName
     \<lparr>Name_flex = [], Type1_flex = ''electric'', Type2_flex = [],
      Pokemon_flex = Some [''name'' \<mapsto> JString ''   '', ''pokemon'' \<mapsto> JString ''pikachu'']\<rparr>
       = ''pikachu''"
  by (simp add: extractPokemonName_def spec_extractPokemonName_def nestedString_def
      normalize_blank normalize_pikachu normalize_empty)

text \<open>
  C3, amended. The precedence is top-level name, then nested \<^verbatim>\<open>name\<close> when present and a
  string, then nested \<^verbatim>\<open>pokemon\<close> when a string, and the first source that is present is
  the one taken: the top-level name whenever it is not the empty string before trimming,
  the nested \<^verbatim>\<open>name\<close> whenever it is a string. The result is that source trimmed and
  lowercased, also when this is the empty string; a lower source is consulted only when
  the higher one is absent. Whenever the result is not empty it is the name the stated
  precedence gives, and a request in which no source resolves to a non-empty string
  resolves to the empty string, which makes it invalid.
\<close>

theorem extractPokemonName_precedence:
  "extractPokemonName input =
     (if Name_flex input \<noteq> [] then ToLower (TrimSpace (Name_flex input))
      else case nestedString input ''name'' of
             Some str \<Rightarrow> ToLower (TrimSpace str)
           | None \<Rightarrow>
               (case nestedString input ''pokemon'' of
                  Some str \<Rightarrow> ToLower (TrimSpace str)
                | None \<Rightarrow> []))
   \<and> (extractPokemonName input \<noteq> [] \<longrightarrow>
        extractPokemonName input = spec_extractPokemonName input)
   \<and> (spec_extractPokemonName input = [] \<longrightarrow> extractPokemonName input = [])"
proof -
  have empty: "ToLower (TrimSpace []) = []"
    by (simp add: ToLower_def TrimSpace_def)
  have agree: "extractPokemonName input \<noteq> [] \<longrightarrow>
        extractPokemonName input = spec_extractPokemonName input"
    by (auto simp add: extractPokemonName_nestedString spec_extractPokemonName_def Let_def empty
        split: option.splits)
  have invalid: "spec_extractPokemonName input = [] \<longrightarrow> extractPokemonName input = []"
    by (auto simp add: extractPokemonName_nestedString spec_extractPokemonName_def Let_def empty
        split: option.splits if_splits)
  show ?thesis
    using extractPokemonName_nestedString [of input] agree invalid by blast
qed

theorem extractPokemonName_precedence_witness:
  "extractPokemonName
     \<lparr>Name_flex = [], Type1_flex = ''fire'', Type2_flex = [],
      Pokemon_flex = Some [''pokemon'' \<mapsto> JString ''charizard'', ''name'' \<mapsto> JNumber 6]\<rparr>
     = ''charizard''
   \<and> spec_extractPokemonName
     \<lparr>Name_flex = [], Type1_flex = ''fire'', Type2_flex = [],
      Pokemon_flex = Some [''pokemon'' \<mapsto> JString ''charizard'', ''name'' \<mapsto> JNumber 6]\<rparr>
     = ''charizard''
   \<and> spec_extractPokemonName
     \<lparr>Name_flex = ''   '', Type1_flex = ''grass'', Type2_flex = [], Pokemon_flex = None\<rparr> = []
   \<and> extractPokemonName
     \<lparr>Name_flex = ''   '', Type1_flex = ''grass'', Type2_flex = [], Pokemon_flex = None\<rparr> = []"
proof -
  let ?a = "\<lparr>Name_flex = [], Type1_flex = ''fire'', Type2_flex = [],
      Pokemon_flex = Some [''pokemon'' \<mapsto> JString ''charizard'', ''name'' \<mapsto> JNumber 6]\<rparr>"
  let ?b = "\<lparr>Name_flex = ''   '', Type1_flex = ''grass'', Type2_flex = [], Pokemon_flex = None\<rparr>"
  have a: "extractPokemonName ?a \<noteq> []"
    by (simp add: extractPokemonName_def normalize_charizard)
  have b: "spec_extractPokemonName ?b = []"
    by (simp add: spec_extractPokemonName_def nestedString_def normalize_blank)
  show ?thesis
    using a b extractPokemonName_precedence [of ?a] extractPokemonName_precedence [of ?b]
    by (simp add: nestedString_def normalize_charizard normalize_blank)
qed

section \<open>Normalisation of the name on the two entry points\<close>

lemma CreatePokemon_looks_up_request_name:
  "\<exists>rest. calls (snd (CreatePokemon s req \<sigma>)) =
     calls \<sigma> @ GetByName_call (Name_req req) # rest"
  by (auto simp add: CreatePokemon_def call_defs split: prod.splits option.splits)

lemma CreatePokemonFlexible_PIKACHU_pikachu:
  "CreatePokemonFlexible s
     \<lparr>Name_flex = ''  PIKACHU  '', Type1_flex = t1, Type2_flex = t2, Pokemon_flex = m\<rparr> \<sigma>
   = CreatePokemonFlexible s
     \<lparr>Name_flex = ''pikachu'', Type1_flex = t1, Type2_flex = t2, Pokemon_flex = m\<rparr> \<sigma>"
  by (simp add: CreatePokemonFlexible_def extractPokemonName_def
      normalize_PIKACHU normalize_pikachu)

text \<open>
  C4. With "pikachu" already saved, \<^verbatim>\<open>CreatePokemon\<close> called with the name "  PIKACHU  "
  looks the store up and asks the catalogue with the name as it was given, untrimmed and
  in upper case, misses the saved record, and ends in the store's refusal of the second
  "pikachu". \<^verbatim>\<open>CreatePokemonFlexible\<close> on the same name trims and lowercases it first,
  looks up "pikachu" and reports the duplicate.
\<close>

theorem CreatePokemon_name_as_given:
  "CreatePokemon memService
     \<lparr>Name_req = ''  PIKACHU  '', Type1_req = ''electric'', Type2_req = []\<rparr> pikachu_store
   = (Returns (None, Some (wrapError
        ''failed to save Pokemon: duplicate key value violates unique constraint''
        (errorString ''duplicate key value violates unique constraint''))),
      \<lparr>world = [saved_pikachu],
       calls = [GetByName_call ''  PIKACHU  '', GetPokemonData_call ''  PIKACHU  '',
                Create_call (saved_pikachu\<lparr>ID := 0\<rparr>)]\<rparr>)
   \<and> CreatePokemonFlexible memService
     \<lparr>Name_flex = ''  PIKACHU  '', Type1_flex = ''electric'', Type2_flex = [],
      Pokemon_flex = None\<rparr> pikachu_store
   = (Returns (None, Some (errorString ''pokemon with this name already exists'')),
      \<lparr>world = [saved_pikachu], calls = [GetByName_call ''pikachu'']\<rparr>)"
  by (simp add: CreatePokemonFlexible_def extractPokemonName_def CreatePokemon_def call_defs
      mem_defs normalize_PIKACHU normalize_pikachu fmt_Errorf_w_def errors_New_def Let_def)

end
